theory Spec2Isabelle
  imports Complex_Main
begin

section \<open>The RAG chatbot glue code of \<^verbatim>\<open>src/app/app.py\<close>\<close>

text \<open>
  The module is sequential glue around four outside parties: the embedding endpoint, the
  chat-completion endpoint, the store (table insert and the remote procedure
  \<^verbatim>\<open>match_documents_hybrid\<close>) and the local PDF and text-splitting libraries. The
  embedding below keeps the module's own control flow, string formatting and error
  handling, and takes what the outside parties answer as parameters (record
  \<open>externals\<close>). Every call that leaves the module is written to a trace, so that
  "was this service called, and with what" is a statement about a list.
\<close>

subsection \<open>Python values, exceptions and results\<close>

text \<open>
  An exception is kept as its class name and the text \<^verbatim>\<open>str(e)\<close>. All exceptions
  modelled here are instances of \<^verbatim>\<open>Exception\<close>, the class the module's
  \<^verbatim>\<open>except\<close> clauses name.
\<close>

datatype py_exception = PyException (exc_class: string) (exc_str: string)

type_synonym 'a result = "py_exception + 'a"

text \<open>
  The scalar values a decoded JSON row can hold. A float is kept as the rational number it
  denotes (every finite double is one); infinities, NaN and the negative zero are outside
  the model, as are nested lists and objects.
\<close>

datatype pyval = PyNone | PyStr string | PyInt int | PyFloat rat

type_synonym row = "string \<rightharpoonup> pyval"

type_synonym vector = "rat list"

subsection \<open>String formatting\<close>

text \<open>A text between two apostrophes, as Python's messages and the module's prints write it.\<close>

definition quoted :: "string \<Rightarrow> string" where
  "quoted s = [CHR 0x27] @ s @ [CHR 0x27]"

definition digit_char :: "nat \<Rightarrow> char" where
  "digit_char d = char_of (48 + d)"

fun str_nat :: "nat \<Rightarrow> string" where
  "str_nat n = (if n < 10 then [digit_char n] else str_nat (n div 10) @ [digit_char (n mod 10)])"

declare str_nat.simps [simp del]

text \<open>\<^verbatim>\<open>str(n)\<close> of a Python int.\<close>

definition str_int :: "int \<Rightarrow> string" where
  "str_int n = (if n < 0 then ''-'' @ str_nat (nat (- n)) else str_nat (nat n))"

text \<open>
  Rounding to the nearest integer, ties to even: what the correctly rounded
  \<^verbatim>\<open>'.3f'\<close> conversion does with the exact value of the number.
\<close>

definition round_half_even :: "rat \<Rightarrow> int" where
  "round_half_even q =
     (let f = \<lfloor>q\<rfloor>; d = q - of_int f
      in if d < 1 / 2 then f else if 1 / 2 < d then f + 1 else if even f then f else f + 1)"

definition pad3 :: "nat \<Rightarrow> string" where
  "pad3 n = (let s = str_nat n in replicate (3 - length s) (CHR ''0'') @ s)"

text \<open>\<^verbatim>\<open>format(q, '.3f')\<close> for a number \<open>q\<close>.\<close>

definition fixed3 :: "rat \<Rightarrow> string" where
  "fixed3 q =
     (let n = nat (round_half_even (\<bar>q\<bar> * 1000))
      in (if q < 0 then ''-'' else '''') @ str_nat (n div 1000) @ ''.'' @ pad3 (n mod 1000))"

text \<open>
  \<^verbatim>\<open>f"{v:.3f}"\<close>: an int is converted to a float and formatted (exact here, so
  faithful for ints of magnitude up to \<open>2 ^ 53\<close>), a string has no format code
  \<^verbatim>\<open>f\<close>, and \<^verbatim>\<open>None\<close> accepts no format string at all.
\<close>

fun format_3f :: "pyval \<Rightarrow> string result" where
  "format_3f (PyInt n) = Inr (fixed3 (of_int n))"
| "format_3f (PyFloat q) = Inr (fixed3 q)"
| "format_3f (PyStr s) =
     Inl (PyException ''ValueError''
       (''Unknown format code '' @ quoted ''f'' @ '' for object of type '' @ quoted ''str''))"
| "format_3f PyNone =
     Inl (PyException ''TypeError'' ''unsupported format string passed to NoneType.__format__'')"

text \<open>\<^verbatim>\<open>sep.join(parts)\<close>.\<close>

fun join :: "string \<Rightarrow> string list \<Rightarrow> string" where
  "join sep [] = []"
| "join sep [p] = p"
| "join sep (p # q # ps) = p @ sep @ join sep (q # ps)"

subsection \<open>The outside world\<close>

text \<open>
  The argument dictionary of the remote procedure call, lines 120 to 126. The two float
  literals are the decimals \<open>0.3\<close> and \<open>0.7\<close> that the JSON request carries.
\<close>

record rpc_params =
  query_embedding :: vector
  query_text :: string
  match_threshold :: rat
  match_count :: int
  semantic_weight :: rat

text \<open>The row dictionary built at lines 83 to 88 for the batch insert.\<close>

record stored_row =
  pdf_name :: string
  page_number :: int
  content :: string
  embedding :: vector

text \<open>Every call that leaves the module, and every line it prints, in the order made.\<close>

datatype event =
    EmbedContent string string
  | GenerateContent string string
  | RpcExecute string rpc_params
  | TableInsert string "stored_row list"
  | PathExists string
  | PdfRead string
  | Print string

text \<open>
  What the outside parties answer. Each answer may depend on everything that happened
  before the call (the trace so far), so a service may fail on its third call and not on
  its first. \<open>embed_content\<close> answers with the list \<^verbatim>\<open>response.embeddings\<close>;
  \<open>rpc_execute\<close> with \<^verbatim>\<open>rpc_response.data\<close>, which may be \<^verbatim>\<open>None\<close>;
  \<open>generate_content\<close> with \<^verbatim>\<open>response.text\<close>; \<open>pdf_read\<close> with, for each
  page of the document, what \<^verbatim>\<open>page.extract_text()\<close> gives. \<open>split_text\<close> is the
  third-party \<^verbatim>\<open>RecursiveCharacterTextSplitter\<close> configured at lines 57 to 61,
  and \<open>float_repr\<close> is Python's \<^verbatim>\<open>str\<close> of a float; neither is code of this
  module. \<open>create_client\<close> and \<open>genai_client\<close> are the two client constructors that
  the module calls while it is imported (lines 22 and 23); each may raise.
\<close>

record externals =
  embed_content :: "event list \<Rightarrow> string \<Rightarrow> string \<Rightarrow> vector list result"
  generate_content :: "event list \<Rightarrow> string \<Rightarrow> string \<Rightarrow> string result"
  rpc_execute :: "event list \<Rightarrow> string \<Rightarrow> rpc_params \<Rightarrow> row list option result"
  table_insert :: "event list \<Rightarrow> string \<Rightarrow> stored_row list \<Rightarrow> unit result"
  path_exists :: "event list \<Rightarrow> string \<Rightarrow> bool"
  pdf_read :: "event list \<Rightarrow> string \<Rightarrow> string option result list result"
  split_text :: "string \<Rightarrow> string list"
  float_repr :: "rat \<Rightarrow> string"
  create_client :: "string option \<Rightarrow> string option \<Rightarrow> unit result"
  genai_client :: "string option \<Rightarrow> unit result"

text \<open>
  The module-level configuration read from the environment, lines 11 to 19. A variable
  that is not set reads as \<^verbatim>\<open>None\<close>.
\<close>

record config =
  api_key :: "string option"
  SUPABASE_URL :: "string option"
  SUPABASE_KEY :: "string option"
  PDF_PATH :: string

definition TABLE_NAME :: string where
  "TABLE_NAME = ''pdf_pages''"

text \<open>\<^verbatim>\<open>not v\<close> for an optional string: \<^verbatim>\<open>None\<close> and the empty string are false.\<close>

definition falsy :: "string option \<Rightarrow> bool" where
  "falsy v = (case v of None \<Rightarrow> True | Some s \<Rightarrow> s = [])"

text \<open>
  Importing the module, lines 9 to 23: with the configuration read, both clients are
  constructed at once, the store's first. An exception of either constructor ends the
  import, and then none of the module's functions can be called.
\<close>

definition load_module :: "externals \<Rightarrow> config \<Rightarrow> unit result" where
  "load_module x cfg =
     (case create_client x (SUPABASE_URL cfg) (SUPABASE_KEY cfg) of
        Inl e \<Rightarrow> Inl e
      | Inr _ \<Rightarrow> genai_client x (api_key cfg))"

text \<open>\<^verbatim>\<open>f"{v}"\<close>, that is \<^verbatim>\<open>str(v)\<close>.\<close>

fun py_str :: "externals \<Rightarrow> pyval \<Rightarrow> string" where
  "py_str x PyNone = ''None''"
| "py_str x (PyStr s) = s"
| "py_str x (PyInt n) = str_int n"
| "py_str x (PyFloat q) = float_repr x q"

text \<open>\<^verbatim>\<open>d.get(k, default)\<close> and \<^verbatim>\<open>d[k]\<close>.\<close>

definition dict_get :: "row \<Rightarrow> string \<Rightarrow> pyval \<Rightarrow> pyval" where
  "dict_get d k dflt = (case d k of None \<Rightarrow> dflt | Some v \<Rightarrow> v)"

definition dict_item :: "row \<Rightarrow> string \<Rightarrow> pyval result" where
  "dict_item d k = (case d k of None \<Rightarrow> Inl (PyException ''KeyError'' (quoted k)) | Some v \<Rightarrow> Inr v)"

text \<open>\<^verbatim>\<open>response.embeddings[0]\<close>.\<close>

definition first_embedding :: "vector list \<Rightarrow> vector result" where
  "first_embedding es =
     (case es of [] \<Rightarrow> Inl (PyException ''IndexError'' ''list index out of range'') | v # _ \<Rightarrow> Inr v)"

subsection \<open>\<^verbatim>\<open>get_chat_response\<close>, lines 25 to 34\<close>

definition get_chat_response :: "externals \<Rightarrow> event list \<Rightarrow> string \<Rightarrow> string \<times> event list" where
  "get_chat_response x tr prompt_text =
     (let tr' = tr @ [GenerateContent ''gemini-3-flash'' prompt_text]
      in case generate_content x tr ''gemini-3-flash'' prompt_text of
           Inr text \<Rightarrow> (text, tr')
         | Inl e \<Rightarrow> (''Error: '' @ exc_str e, tr'))"

subsection \<open>\<^verbatim>\<open>query_documents\<close>, lines 105 to 156\<close>

text \<open>One turn of the loop at lines 135 to 141: the text appended for match \<open>i\<close>.\<close>

definition context_part :: "externals \<Rightarrow> nat \<Rightarrow> row \<Rightarrow> string result" where
  "context_part x i match =
     (let score = dict_get match ''combined_score'' (PyInt 0);
          name = dict_get match ''pdf_name'' (PyStr ''Unknown'');
          page = dict_get match ''page_number'' (PyStr ''?'')
      in case format_3f score of
           Inl e \<Rightarrow> Inl e
         | Inr score_text \<Rightarrow>
             (case dict_item match ''content'' of
                Inl e \<Rightarrow> Inl e
              | Inr c \<Rightarrow>
                  Inr (''[Source '' @ str_int (int i) @ '' - '' @ py_str x name @ '' - ''
                       @ ''Page '' @ py_str x page @ '' - Score: '' @ score_text @ '']\<newline>''
                       @ py_str x c @ ''\<newline>'')))"

text \<open>The loop itself, from index \<open>i\<close> on; it stops at the first row that raises.\<close>

fun context_parts :: "externals \<Rightarrow> nat \<Rightarrow> row list \<Rightarrow> string list result" where
  "context_parts x i [] = Inr []"
| "context_parts x i (match # rest) =
     (case context_part x i match of
        Inl e \<Rightarrow> Inl e
      | Inr part \<Rightarrow>
          (case context_parts x (Suc i) rest of
             Inl e \<Rightarrow> Inl e
           | Inr parts \<Rightarrow> Inr (part # parts)))"

text \<open>The template of lines 146 to 154, with its indentation.\<close>

definition full_prompt :: "string \<Rightarrow> string \<Rightarrow> string" where
  "full_prompt context_text query =
     ''\<newline>    You are a helpful AI assistant. Answer the question based ONLY on the following context:\<newline>''
     @ ''    \<newline>    CONTEXT:\<newline>    '' @ context_text
     @ ''\<newline>    \<newline>    QUESTION:\<newline>    '' @ query @ ''\<newline>    ''"

definition hybrid_params :: "vector \<Rightarrow> string \<Rightarrow> rpc_params" where
  "hybrid_params query_vector query =
     \<lparr>query_embedding = query_vector, query_text = query, match_threshold = 3 / 10,
      match_count = 5, semantic_weight = 7 / 10\<rparr>"

definition no_documents_message :: string where
  "no_documents_message = ''No relevant documents found in the database to answer your question.''"

text \<open>
  The result is the returned string, or the exception that leaves the call; the second
  component is the trace after the call. The flag \<open>use_hybrid\<close> is not read.
\<close>

definition query_documents ::
  "externals \<Rightarrow> event list \<Rightarrow> string \<Rightarrow> bool \<Rightarrow> string result \<times> event list" where
  "query_documents x tr query use_hybrid =
     (let tr1 = tr @ [EmbedContent ''text-embedding-004'' query]
      in case embed_content x tr ''text-embedding-004'' query of
           Inl e \<Rightarrow> (Inl e, tr1)
         | Inr embeddings \<Rightarrow>
             (case first_embedding embeddings of
                Inl e \<Rightarrow> (Inl e, tr1)
              | Inr query_vector \<Rightarrow>
                  (let params = hybrid_params query_vector query;
                       tr2 = tr1 @ [RpcExecute ''match_documents_hybrid'' params]
                   in case rpc_execute x tr1 ''match_documents_hybrid'' params of
                        Inl e \<Rightarrow> (Inl e, tr2)
                      | Inr data \<Rightarrow>
                          (case data of
                             None \<Rightarrow> (Inr no_documents_message, tr2)
                           | Some [] \<Rightarrow> (Inr no_documents_message, tr2)
                           | Some (m # ms) \<Rightarrow>
                               (case context_parts x 1 (m # ms) of
                                  Inl e \<Rightarrow> (Inl e, tr2)
                                | Inr parts \<Rightarrow>
                                    (let context_text = join ''\<newline>---\<newline>'' parts;
                                         (answer, tr3) =
                                           get_chat_response x tr2 (full_prompt context_text query)
                                     in (Inr answer, tr3)))))))"

subsection \<open>\<^verbatim>\<open>upload_pdf_to_supabase\<close>, lines 36 to 103\<close>

definition EMBEDDING_MODEL :: string where
  "EMBEDDING_MODEL = ''text-embedding-004''"

text \<open>\<^verbatim>\<open>os.path.basename\<close> on a path with forward slashes.\<close>

definition basename :: "string \<Rightarrow> string" where
  "basename p = rev (takeWhile (\<lambda>c. c \<noteq> CHR ''/'') (rev p))"

text \<open>
  The inner loop, lines 72 to 89: one embedding call and one appended row per chunk. The
  first failing call ends the loop with its exception.
\<close>

fun embed_chunks ::
  "externals \<Rightarrow> string \<Rightarrow> int \<Rightarrow> string list \<Rightarrow> stored_row list \<Rightarrow> event list
     \<Rightarrow> stored_row list result \<times> event list" where
  "embed_chunks x name page [] rows_to_insert tr = (Inr rows_to_insert, tr)"
| "embed_chunks x name page (chunk # chunks) rows_to_insert tr =
     (let tr' = tr @ [EmbedContent EMBEDDING_MODEL chunk]
      in case embed_content x tr EMBEDDING_MODEL chunk of
           Inl e \<Rightarrow> (Inl e, tr')
         | Inr embeddings \<Rightarrow>
             (case first_embedding embeddings of
                Inl e \<Rightarrow> (Inl e, tr')
              | Inr embedding_vector \<Rightarrow>
                  embed_chunks x name page chunks
                    (rows_to_insert @
                       [\<lparr>pdf_name = name, page_number = page, content = chunk,
                         embedding = embedding_vector\<rparr>])
                    tr'))"

text \<open>
  The outer loop, lines 65 to 89, over the pages from index \<open>i\<close> on. A page is given
  by what its \<^verbatim>\<open>extract_text()\<close> does; \<^verbatim>\<open>or ""\<close> turns \<^verbatim>\<open>None\<close> into
  the empty text.
\<close>

fun process_pages ::
  "externals \<Rightarrow> string \<Rightarrow> int \<Rightarrow> string option result list \<Rightarrow> stored_row list \<Rightarrow> event list
     \<Rightarrow> stored_row list result \<times> event list" where
  "process_pages x name i [] rows_to_insert tr = (Inr rows_to_insert, tr)"
| "process_pages x name i (page # pages) rows_to_insert tr =
     (case page of
        Inl e \<Rightarrow> (Inl e, tr)
      | Inr extracted \<Rightarrow>
          (let text_content = (case extracted of None \<Rightarrow> [] | Some t \<Rightarrow> t);
               chunks = split_text x text_content
           in case embed_chunks x name (i + 1) chunks rows_to_insert tr of
                (Inl e, tr') \<Rightarrow> (Inl e, tr')
              | (Inr rows', tr') \<Rightarrow> process_pages x name (i + 1) pages rows' tr'))"

text \<open>The body of the \<^verbatim>\<open>try\<close> block, lines 49 to 99.\<close>

definition upload_body :: "externals \<Rightarrow> config \<Rightarrow> event list \<Rightarrow> unit result \<times> event list" where
  "upload_body x cfg tr =
     (let tr1 = tr @ [PdfRead (PDF_PATH cfg)]
      in case pdf_read x tr (PDF_PATH cfg) of
           Inl e \<Rightarrow> (Inl e, tr1)
         | Inr pages \<Rightarrow>
             (let name = basename (PDF_PATH cfg);
                  total_pages = int (length pages);
                  tr2 = tr1 @ [Print (''Processing '' @ quoted name @ '' with ''
                                      @ str_int total_pages @ '' pages...'')]
              in case process_pages x name 0 pages [] tr2 of
                   (Inl e, tr3) \<Rightarrow> (Inl e, tr3)
                 | (Inr rows_to_insert, tr3) \<Rightarrow>
                     (let n = str_int (int (length rows_to_insert));
                          tr4 = tr3 @ [Print (''Extracted '' @ n @ '' pages. Uploading to Supabase...''),
                                       Print (''Uploading '' @ n @ '' total chunks to Supabase...'')];
                          tr5 = tr4 @ [TableInsert TABLE_NAME rows_to_insert]
                      in case table_insert x tr4 TABLE_NAME rows_to_insert of
                           Inl e \<Rightarrow> (Inl e, tr5)
                         | Inr _ \<Rightarrow> (Inr (), tr5 @ [Print ''Success! Data uploaded.'']))))"

text \<open>
  The function returns a string on its two early exits and \<^verbatim>\<open>None\<close> otherwise; an
  exception of the \<^verbatim>\<open>try\<close> block is printed and not raised.
\<close>

definition upload_pdf_to_supabase :: "externals \<Rightarrow> config \<Rightarrow> event list \<Rightarrow> string option \<times> event list" where
  "upload_pdf_to_supabase x cfg tr =
     (if falsy (SUPABASE_URL cfg) \<or> falsy (SUPABASE_KEY cfg)
      then (Some ''Error: Supabase credentials not found in .env file.'', tr)
      else
        (let tr1 = tr @ [PathExists (PDF_PATH cfg)]
         in if \<not> path_exists x tr (PDF_PATH cfg)
            then (Some (''Error: File not found at '' @ PDF_PATH cfg), tr1)
            else
              (case upload_body x cfg tr1 of
                 (Inl e, tr2) \<Rightarrow> (None, tr2 @ [Print (''An error occurred: '' @ exc_str e)])
               | (Inr _, tr2) \<Rightarrow> (None, tr2))))"

text \<open>
  The ingestion operation as a program performs it: the module is imported, which runs
  lines 9 to 23, and then \<open>upload_pdf_to_supabase\<close> is called. The result is what the
  function returns, or the exception that ended the import.
\<close>

definition import_then_upload ::
  "externals \<Rightarrow> config \<Rightarrow> event list \<Rightarrow> string option result \<times> event list" where
  "import_then_upload x cfg tr =
     (case load_module x cfg of
        Inl e \<Rightarrow> (Inl e, tr)
      | Inr _ \<Rightarrow> (let (returned, tr') = upload_pdf_to_supabase x cfg tr in (Inr returned, tr')))"

subsection \<open>Reading a trace\<close>

text \<open>The calls that go over the network: both model endpoints and the store.\<close>

fun is_network_call :: "event \<Rightarrow> bool" where
  "is_network_call (EmbedContent m c) = True"
| "is_network_call (GenerateContent m p) = True"
| "is_network_call (RpcExecute f a) = True"
| "is_network_call (TableInsert t rs) = True"
| "is_network_call (PathExists p) = False"
| "is_network_call (PdfRead p) = False"
| "is_network_call (Print s) = False"

text \<open>The prompts sent to the chat-completion model, and the model names sent to the embedder.\<close>

fun chat_prompts :: "event list \<Rightarrow> string list" where
  "chat_prompts [] = []"
| "chat_prompts (GenerateContent m p # tr) = p # chat_prompts tr"
| "chat_prompts (ev # tr) = chat_prompts tr"

fun embed_models :: "event list \<Rightarrow> string list" where
  "embed_models [] = []"
| "embed_models (EmbedContent m c # tr) = m # embed_models tr"
| "embed_models (ev # tr) = embed_models tr"

subsection \<open>The store's blended score\<close>

text \<open>
  Modelled from the spec: the SQL function \<^verbatim>\<open>match_documents_hybrid\<close> that the store
  runs is created in the database and is not among the source files; only its caller
  (lines 118 to 127) is. The specification gives its score as
  \<^verbatim>\<open>semantic_weight * vector_similarity + (1 - semantic_weight) * lexical_score\<close>.
\<close>

definition combined_score :: "rat \<Rightarrow> rat \<Rightarrow> rat \<Rightarrow> rat" where
  "combined_score weight vector_similarity lexical_score =
     weight * vector_similarity + (1 - weight) * lexical_score"

subsection \<open>Concrete outside worlds\<close>

text \<open>
  The store client's constructor as the supabase library has it: it refuses a missing or
  empty URL, then a missing or empty key, with a \<^verbatim>\<open>SupabaseException\<close>.
\<close>

definition supabase_create_client :: "string option \<Rightarrow> string option \<Rightarrow> unit result" where
  "supabase_create_client url key =
     (if falsy url then Inl (PyException ''SupabaseException'' ''supabase_url is required'')
      else if falsy key then Inl (PyException ''SupabaseException'' ''supabase_key is required'')
      else Inr ())"

text \<open>
  A world whose three services give the same answer to every call: \<open>emb\<close> from the
  embedder, \<open>data\<close> from the store's procedure and \<open>chat\<close> from the chat model. Its
  document has two pages, the second without extractable text.
\<close>

definition demo_externals ::
  "vector list result \<Rightarrow> row list option result \<Rightarrow> string result \<Rightarrow> externals" where
  "demo_externals emb data chat =
     \<lparr>embed_content = (\<lambda>tr m c. emb), generate_content = (\<lambda>tr m p. chat),
      rpc_execute = (\<lambda>tr f a. data), table_insert = (\<lambda>tr t rs. Inr ()),
      path_exists = (\<lambda>tr p. True), pdf_read = (\<lambda>tr p. Inr [Inr (Some ''ab''), Inr None]),
      split_text = (\<lambda>s. if s = [] then [] else [s]), float_repr = (\<lambda>q. ''0.5''),
      create_client = supabase_create_client, genai_client = (\<lambda>k. Inr ())\<rparr>"

definition demo_config :: "string option \<Rightarrow> string option \<Rightarrow> config" where
  "demo_config url key =
     \<lparr>api_key = Some ''google-key'', SUPABASE_URL = url, SUPABASE_KEY = key,
      PDF_PATH = ''/srv/app/../data/Ebook_Agentic_AI.pdf''\<rparr>"

text \<open>
  The match row of the prompt example. Its score is the double nearest to \<open>0.812\<close>, which
  is what the float literal and the decoded JSON number both denote.
\<close>

definition example_match :: row where
  "example_match =
     [''pdf_name'' \<mapsto> PyStr ''A'', ''page_number'' \<mapsto> PyInt 1,
      ''combined_score'' \<mapsto> PyFloat (3656922897424843 / 4503599627370496),
      ''content'' \<mapsto> PyStr ''X'']"

subsection \<open>Rows as the store returns them\<close>



section \<open>Properties\<close>

subsection \<open>Traces\<close>

lemma chat_prompts_append: "chat_prompts (a @ b) = chat_prompts a @ chat_prompts b"
  by (induction a rule: chat_prompts.induct) simp_all

lemma embed_models_append: "embed_models (a @ b) = embed_models a @ embed_models b"
  by (induction a rule: embed_models.induct) simp_all

subsection \<open>Formatting small numbers\<close>


lemma str_int_1: "str_int 1 = ''1''"
  by code_simp

subsection \<open>The chat call\<close>

text \<open>
  Claim C7. Whatever the prompt, when the chat-completion call raises an exception
  \<open>e\<close>, \<open>get_chat_response\<close> returns the text \<^verbatim>\<open>"Error: "\<close> followed by
  \<^verbatim>\<open>str(e)\<close>; when the call succeeds it returns the generated text. The function's
  result is a string in both cases: no exception leaves it.
\<close>

theorem get_chat_response_catches:
  "(generate_content x tr ''gemini-3-flash'' p = Inl e \<longrightarrow>
      fst (get_chat_response x tr p) = ''Error: '' @ exc_str e)
   \<and> (generate_content x tr ''gemini-3-flash'' p = Inr t \<longrightarrow>
      fst (get_chat_response x tr p) = t)"
  by (simp add: get_chat_response_def Let_def)

theorem get_chat_response_catches_witness:
  "fst (get_chat_response
          (demo_externals (Inr [[1]]) (Inr None) (Inl (PyException ''ServerError'' ''503 UNAVAILABLE'')))
          [] ''hello'')
     = ''Error: 503 UNAVAILABLE''
   \<and> fst (get_chat_response (demo_externals (Inr [[1]]) (Inr None) (Inr ''Hi there'')) [] ''hello'')
     = ''Hi there''"
proof -
  let ?down = "demo_externals (Inr [[1]]) (Inr None) (Inl (PyException ''ServerError'' ''503 UNAVAILABLE''))"
  let ?up = "demo_externals (Inr [[1]]) (Inr None) (Inr ''Hi there'')"
  have failing: "generate_content ?down [] ''gemini-3-flash'' ''hello''
                   = Inl (PyException ''ServerError'' ''503 UNAVAILABLE'')"
    by (simp add: demo_externals_def)
  have answering: "generate_content ?up [] ''gemini-3-flash'' ''hello'' = Inr ''Hi there''"
    by (simp add: demo_externals_def)
  from failing answering
    get_chat_response_catches [of ?down "[]" "''hello''" "PyException ''ServerError'' ''503 UNAVAILABLE''" "[]"]
    get_chat_response_catches [of ?up "[]" "''hello''" "PyException [] []" "''Hi there''"]
  show ?thesis by simp
qed

subsection \<open>The query path\<close>

text \<open>
  Claim C1, evaluated where it fails. The embedding call of \<open>query_documents\<close> (lines 110
  to 113) stands outside any \<^verbatim>\<open>try\<close>: with the embedding service refusing the
  connection, the call ends with that exception, and no string is returned.
\<close>

theorem query_documents_embedding_failure:
  "query_documents
     (demo_externals (Inl (PyException ''ConnectError'' ''connection refused'')) (Inr None) (Inr ''ok''))
     [] ''What is agentic AI?'' True
     = (Inl (PyException ''ConnectError'' ''connection refused''),
        [EmbedContent ''text-embedding-004'' ''What is agentic AI?''])"
  by (simp add: query_documents_def demo_externals_def)

text \<open>
  Claim C2. When the query is embedded and the store's hybrid query answers with no rows
  (an empty list, or no data at all), \<open>query_documents\<close> returns the fixed message and
  the trace holds no chat-completion call beyond those made before.
\<close>

theorem empty_match_list_skips_chat:
  assumes "embed_content x tr ''text-embedding-004'' q = Inr (v # vs)"
    and "rpc_execute x (tr @ [EmbedContent ''text-embedding-004'' q]) ''match_documents_hybrid''
           (hybrid_params v q) = Inr data"
    and "data = None \<or> data = Some []"
  shows "fst (query_documents x tr q h)
           = Inr ''No relevant documents found in the database to answer your question.''
         \<and> chat_prompts (snd (query_documents x tr q h)) = chat_prompts tr"
  using assms
  by (auto simp add: query_documents_def first_embedding_def Let_def no_documents_message_def
        chat_prompts_append)

theorem empty_match_list_skips_chat_witness:
  "fst (query_documents (demo_externals (Inr [[1, 0]]) (Inr (Some [])) (Inr ''unused'')) []
          ''What is agentic AI?'' True)
     = Inr ''No relevant documents found in the database to answer your question.''
   \<and> chat_prompts (snd (query_documents (demo_externals (Inr [[1, 0]]) (Inr (Some [])) (Inr ''unused''))
          [] ''What is agentic AI?'' True)) = []"
proof -
  let ?w = "demo_externals (Inr [[1, 0]]) (Inr (Some [])) (Inr ''unused'')"
  let ?q = "''What is agentic AI?''"
  have embedded: "embed_content ?w [] ''text-embedding-004'' ?q = Inr ([1, 0] # [])"
    by (simp add: demo_externals_def)
  have answered: "rpc_execute ?w ([] @ [EmbedContent ''text-embedding-004'' ?q])
                    ''match_documents_hybrid'' (hybrid_params [1, 0] ?q) = Inr (Some [])"
    by (simp add: demo_externals_def)
  have no_rows: "Some [] = None \<or> Some [] = (Some [] :: row list option)"
    by simp
  from empty_match_list_skips_chat [OF embedded answered no_rows, of True]
  show ?thesis by simp
qed

subsection \<open>The ingestion path\<close>

text \<open>
  The guard at lines 40 and 41, taken alone: called with a credential missing,
  \<open>upload_pdf_to_supabase\<close> returns the descriptive error string and the trace is the one
  it started with, so nothing was called, over the network or otherwise.
\<close>

lemma credentials_guard:
  "SUPABASE_URL cfg = None \<or> SUPABASE_KEY cfg = None \<Longrightarrow>
     upload_pdf_to_supabase x cfg tr
       = (Some ''Error: Supabase credentials not found in .env file.'', tr)
     \<and> filter is_network_call (snd (upload_pdf_to_supabase x cfg tr)) = filter is_network_call tr"
  by (auto simp add: upload_pdf_to_supabase_def falsy_def)

text \<open>
  Claim C3, evaluated where it fails. The guard is never reached when a credential is
  really missing from the environment: line 22 hands the same two values to the store
  client's constructor while the module is imported, the constructor raises, and the
  ingestion operation ends with that exception where the claim has it return the error
  string. No call has been made by then.
\<close>

theorem import_fails_without_credentials:
  "import_then_upload (demo_externals (Inr [[1]]) (Inr None) (Inr ''ok''))
     (demo_config None (Some ''service-key'')) []
     = (Inl (PyException ''SupabaseException'' ''supabase_url is required''), [])"
  by (simp add: import_then_upload_def load_module_def demo_externals_def demo_config_def
        supabase_create_client_def falsy_def)

subsection \<open>The blended score\<close>

text \<open>
  Claim C9. The weight that \<open>query_documents\<close> passes to the store is \<open>0.7\<close>, and with
  that weight the blended score does not decrease when a row's vector similarity grows
  and its lexical score stays the same.
\<close>

theorem combined_score_monotone:
  "semantic_weight (hybrid_params qv q) = 7 / 10
   \<and> (v \<le> v' \<longrightarrow> combined_score (7 / 10) v l \<le> combined_score (7 / 10) v' l)"
  by (simp add: hybrid_params_def combined_score_def)

theorem combined_score_monotone_witness:
  "(1 / 5 :: rat) \<le> 1 / 2
   \<and> combined_score (7 / 10) (1 / 5) (2 / 5) \<le> combined_score (7 / 10) (1 / 2) (2 / 5)"
proof -
  have grows: "(1 / 5 :: rat) \<le> 1 / 2" by simp
  from grows combined_score_monotone [of "[]" "[]" "1 / 5" "1 / 2" "2 / 5"]
  show ?thesis by simp
qed

subsection \<open>The assembled prompt\<close>

lemma fixed3_0812: "fixed3 (3656922897424843 / 4503599627370496) = ''0.812''"
  by code_simp

lemma example_part:
  "context_part x 1 example_match = Inr ''[Source 1 - A - Page 1 - Score: 0.812]\<newline>X\<newline>''"
  by (simp add: context_part_def example_match_def dict_get_def dict_item_def fixed3_0812 str_int_1)

lemma example_prompt:
  "full_prompt (join ''\<newline>---\<newline>'' [''[Source 1 - A - Page 1 - Score: 0.812]\<newline>X\<newline>'']) ''Q?''
   = ''\<newline>    You are a helpful AI assistant. Answer the question based ONLY on the following context:\<newline>    \<newline>    CONTEXT:\<newline>    [Source 1 - A - ''
     @ ''Page 1'' @ '' - Score: '' @ ''0.812'' @ '']\<newline>'' @ ''X'' @ ''\<newline>\<newline>    \<newline>    QUESTION:\<newline>    '' @ ''Q?'' @ ''\<newline>    ''"
  by (simp add: full_prompt_def)

lemma example_run:
  assumes "embed_content x tr ''text-embedding-004'' ''Q?'' = Inr (v # vs)"
    and "rpc_execute x (tr @ [EmbedContent ''text-embedding-004'' ''Q?'']) ''match_documents_hybrid''
           (hybrid_params v ''Q?'') = Inr (Some [example_match])"
  shows "chat_prompts (snd (query_documents x tr ''Q?'' h))
          = chat_prompts tr @ [full_prompt (join ''\<newline>---\<newline>'' [''[Source 1 - A - Page 1 - Score: 0.812]\<newline>X\<newline>'']) ''Q?'']"
proof -
  have parts: "context_parts x 1 [example_match] = Inr [''[Source 1 - A - Page 1 - Score: 0.812]\<newline>X\<newline>'']"
    using example_part [of x] by (simp del: One_nat_def)
  show ?thesis
    unfolding query_documents_def Let_def assms sum.case first_embedding_def list.case
      option.case parts get_chat_response_def
    by (simp only: chat_prompts_append split: sum.split) (simp add: chat_prompts_append split: sum.split)
qed

text \<open>
  Claim C4. For the single match with name \<open>A\<close>, page 1, score \<open>0.812\<close> and content
  \<open>X\<close>, and the question \<open>Q?\<close>, the prompt that \<open>query_documents\<close> sends to the chat
  model contains \<open>Page 1\<close>, then \<open>0.812\<close>, then \<open>X\<close>, then \<open>Q?\<close>, in this order.
\<close>

theorem example_prompt_order:
  assumes "embed_content x tr ''text-embedding-004'' ''Q?'' = Inr (v # vs)"
    and "rpc_execute x (tr @ [EmbedContent ''text-embedding-004'' ''Q?'']) ''match_documents_hybrid''
           (hybrid_params v ''Q?'') = Inr (Some [example_match])"
  shows "\<exists>a b c d e.
           chat_prompts (snd (query_documents x tr ''Q?'' h))
             = chat_prompts tr @ [a @ ''Page 1'' @ b @ ''0.812'' @ c @ ''X'' @ d @ ''Q?'' @ e]"
proof (intro exI)
  show "chat_prompts (snd (query_documents x tr ''Q?'' h))
          = chat_prompts tr @
            [''\<newline>    You are a helpful AI assistant. Answer the question based ONLY on the following context:\<newline>    \<newline>    CONTEXT:\<newline>    [Source 1 - A - ''
             @ ''Page 1'' @ '' - Score: '' @ ''0.812'' @ '']\<newline>'' @ ''X''
             @ ''\<newline>\<newline>    \<newline>    QUESTION:\<newline>    '' @ ''Q?'' @ ''\<newline>    '']"
    unfolding example_run [OF assms] example_prompt ..
qed

theorem example_prompt_order_witness:
  "embed_content (demo_externals (Inr [[1]]) (Inr (Some [example_match])) (Inr ''answer'')) []
     ''text-embedding-004'' ''Q?'' = Inr [[1]]
   \<and> (\<exists>a b c d e.
         chat_prompts (snd (query_documents
             (demo_externals (Inr [[1]]) (Inr (Some [example_match])) (Inr ''answer'')) [] ''Q?'' True))
           = [a @ ''Page 1'' @ b @ ''0.812'' @ c @ ''X'' @ d @ ''Q?'' @ e])"
proof -
  let ?w = "demo_externals (Inr [[1]]) (Inr (Some [example_match])) (Inr ''answer'')"
  have embedded: "embed_content ?w [] ''text-embedding-004'' ''Q?'' = Inr ([1] # [])"
    by (simp add: demo_externals_def)
  have answered: "rpc_execute ?w ([] @ [EmbedContent ''text-embedding-004'' ''Q?''])
                    ''match_documents_hybrid'' (hybrid_params [1] ''Q?'') = Inr (Some [example_match])"
    by (simp add: demo_externals_def)
  from example_prompt_order [OF embedded answered, of True] embedded
  show ?thesis by simp
qed

subsection \<open>Rows with missing keys\<close>










subsection \<open>The embedding model\<close>

lemma embed_chunks_models:
  "\<exists>n. embed_models (snd (embed_chunks x name page chunks rows tr))
         = embed_models tr @ replicate n EMBEDDING_MODEL"
proof (induction chunks arbitrary: rows tr)
  case Nil
  have "embed_models (snd (embed_chunks x name page [] rows tr))
          = embed_models tr @ replicate 0 EMBEDDING_MODEL" by simp
  then show ?case by (rule exI)
next
  case (Cons chunk chunks)
  let ?tr' = "tr @ [EmbedContent EMBEDDING_MODEL chunk]"
  have one: "embed_models ?tr' = embed_models tr @ replicate 1 EMBEDDING_MODEL"
    by (simp add: embed_models_append)
  show ?case
  proof (cases "embed_content x tr EMBEDDING_MODEL chunk")
    case (Inl e)
    then have "snd (embed_chunks x name page (chunk # chunks) rows tr) = ?tr'"
      by (simp add: Let_def)
    with one have "embed_models (snd (embed_chunks x name page (chunk # chunks) rows tr))
                     = embed_models tr @ replicate 1 EMBEDDING_MODEL" by simp
    then show ?thesis by (rule exI)
  next
    case (Inr embeddings)
    note embedded = this
    show ?thesis
    proof (cases "first_embedding embeddings")
      case (Inl e)
      with embedded have "snd (embed_chunks x name page (chunk # chunks) rows tr) = ?tr'"
        by (simp add: Let_def)
      with one have "embed_models (snd (embed_chunks x name page (chunk # chunks) rows tr))
                       = embed_models tr @ replicate 1 EMBEDDING_MODEL" by simp
      then show ?thesis by (rule exI)
    next
      case (Inr vec)
      let ?rows' = "rows @ [\<lparr>pdf_name = name, page_number = page, content = chunk, embedding = vec\<rparr>]"
      from Cons.IH [of ?rows' ?tr'] obtain n where
        n: "embed_models (snd (embed_chunks x name page chunks ?rows' ?tr'))
           = embed_models ?tr' @ replicate n EMBEDDING_MODEL" by blast
      have step: "embed_chunks x name page (chunk # chunks) rows tr
                       = embed_chunks x name page chunks ?rows' ?tr'"
        using embedded Inr by (simp add: Let_def)
      have "embed_models (snd (embed_chunks x name page (chunk # chunks) rows tr))
                         = embed_models tr @ replicate (Suc n) EMBEDDING_MODEL"
        unfolding step n by (simp add: embed_models_append)
      then show ?thesis by (rule exI)
    qed
  qed
qed

lemma process_pages_models:
  "\<exists>n. embed_models (snd (process_pages x name i pages rows tr))
         = embed_models tr @ replicate n EMBEDDING_MODEL"
proof (induction pages arbitrary: i rows tr)
  case Nil
  have "embed_models (snd (process_pages x name i [] rows tr))
          = embed_models tr @ replicate 0 EMBEDDING_MODEL" by simp
  then show ?case by (rule exI)
next
  case (Cons page pages)
  show ?case
  proof (cases page)
    case (Inl e)
    then have "embed_models (snd (process_pages x name i (page # pages) rows tr))
          = embed_models tr @ replicate 0 EMBEDDING_MODEL" by simp
    then show ?thesis by (rule exI)
  next
    case (Inr extracted)
    note page = this
    let ?chunks = "split_text x (case extracted of None \<Rightarrow> [] | Some t \<Rightarrow> t)"
    obtain r tr' where run: "embed_chunks x name (i + 1) ?chunks rows tr = (r, tr')"
      by (cases "embed_chunks x name (i + 1) ?chunks rows tr")
    from embed_chunks_models [of x name "i + 1" ?chunks rows tr] obtain n where
      "embed_models (snd (embed_chunks x name (i + 1) ?chunks rows tr))
         = embed_models tr @ replicate n EMBEDDING_MODEL" by blast
    then have n: "embed_models tr' = embed_models tr @ replicate n EMBEDDING_MODEL"
      unfolding run by simp
    show ?thesis
    proof (cases r)
      case (Inl e)
      with page run have "snd (process_pages x name i (page # pages) rows tr) = tr'"
        by (simp add: Let_def)
      with n have "embed_models (snd (process_pages x name i (page # pages) rows tr))
                     = embed_models tr @ replicate n EMBEDDING_MODEL" by simp
      then show ?thesis by (rule exI)
    next
      case (Inr rows')
      with page run
      have step: "process_pages x name i (page # pages) rows tr
                    = process_pages x name (i + 1) pages rows' tr'"
        by (simp add: Let_def)
      from Cons.IH [of "i + 1" rows' tr'] obtain m where
        m: "embed_models (snd (process_pages x name (i + 1) pages rows' tr'))
           = embed_models tr' @ replicate m EMBEDDING_MODEL" by blast
      have "embed_models (snd (process_pages x name i (page # pages) rows tr))
                          = embed_models tr @ replicate (n + m) EMBEDDING_MODEL"
        unfolding step m n by (simp add: replicate_add)
      then show ?thesis by (rule exI)
    qed
  qed
qed

lemma upload_body_models:
  "\<exists>n. embed_models (snd (upload_body x cfg tr)) = embed_models tr @ replicate n EMBEDDING_MODEL"
proof (cases "pdf_read x tr (PDF_PATH cfg)")
  case (Inl e)
  then have "embed_models (snd (upload_body x cfg tr)) = embed_models tr @ replicate 0 EMBEDDING_MODEL"
    by (simp add: upload_body_def Let_def embed_models_append)
  then show ?thesis by (rule exI)
next
  case (Inr pages)
  let ?name = "basename (PDF_PATH cfg)"
  let ?tr2 = "(tr @ [PdfRead (PDF_PATH cfg)]) @
              [Print (''Processing '' @ quoted ?name @ '' with ''
                      @ str_int (int (length pages)) @ '' pages...'')]"
  obtain r tr3 where run: "process_pages x ?name 0 pages [] ?tr2 = (r, tr3)"
    by (cases "process_pages x ?name 0 pages [] ?tr2")
  from process_pages_models [of x ?name 0 pages "[]" ?tr2] obtain n where
    "embed_models (snd (process_pages x ?name 0 pages [] ?tr2))
       = embed_models ?tr2 @ replicate n EMBEDDING_MODEL" by blast
  then have n: "embed_models tr3 = embed_models tr @ replicate n EMBEDDING_MODEL"
    unfolding run by (simp add: embed_models_append)
  have "embed_models (snd (upload_body x cfg tr)) = embed_models tr3"
  proof (cases r)
    case (Inl e)
    with Inr run show ?thesis by (simp add: upload_body_def Let_def)
  next
    case (Inr rows)
    with \<open>pdf_read x tr (PDF_PATH cfg) = Inr pages\<close> run show ?thesis
      by (cases "table_insert x
                   (tr3 @ [Print (''Extracted '' @ str_int (int (length rows)) @ '' pages. Uploading to Supabase...''),
                           Print (''Uploading '' @ str_int (int (length rows)) @ '' total chunks to Supabase...'')])
                   TABLE_NAME rows")
         (simp_all add: upload_body_def Let_def embed_models_append)
  qed
  with n have "embed_models (snd (upload_body x cfg tr))
                 = embed_models tr @ replicate n EMBEDDING_MODEL" by simp
  then show ?thesis by (rule exI)
qed

lemma upload_models:
  "\<exists>n. embed_models (snd (upload_pdf_to_supabase x cfg tr))
         = embed_models tr @ replicate n EMBEDDING_MODEL"
proof (cases "falsy (SUPABASE_URL cfg) \<or> falsy (SUPABASE_KEY cfg)")
  case True
  then have "embed_models (snd (upload_pdf_to_supabase x cfg tr))
               = embed_models tr @ replicate 0 EMBEDDING_MODEL"
    by (simp add: upload_pdf_to_supabase_def)
  then show ?thesis by (rule exI)
next
  case False
  note creds = this
  let ?tr1 = "tr @ [PathExists (PDF_PATH cfg)]"
  show ?thesis
  proof (cases "path_exists x tr (PDF_PATH cfg)")
    case False
    with creds have "embed_models (snd (upload_pdf_to_supabase x cfg tr))
               = embed_models tr @ replicate 0 EMBEDDING_MODEL"
      by (simp add: upload_pdf_to_supabase_def Let_def embed_models_append)
    then show ?thesis by (rule exI)
  next
    case True
    obtain r tr2 where run: "upload_body x cfg ?tr1 = (r, tr2)"
      by (cases "upload_body x cfg ?tr1")
    from upload_body_models [of x cfg ?tr1] obtain n where
      "embed_models (snd (upload_body x cfg ?tr1)) = embed_models ?tr1 @ replicate n EMBEDDING_MODEL"
      by blast
    then have n: "embed_models tr2 = embed_models tr @ replicate n EMBEDDING_MODEL"
      unfolding run by (simp add: embed_models_append)
    from creds True run have "embed_models (snd (upload_pdf_to_supabase x cfg tr)) = embed_models tr2"
      by (cases r) (simp_all add: upload_pdf_to_supabase_def Let_def embed_models_append)
    with n have "embed_models (snd (upload_pdf_to_supabase x cfg tr))
                   = embed_models tr @ replicate n EMBEDDING_MODEL" by simp
    then show ?thesis by (rule exI)
  qed
qed

lemma query_models:
  "embed_models (snd (query_documents x tr q h)) = embed_models tr @ [''text-embedding-004'']"
proof (cases "embed_content x tr ''text-embedding-004'' q")
  case (Inl e)
  then show ?thesis by (simp add: query_documents_def Let_def embed_models_append)
next
  case (Inr embeddings)
  note embedded = this
  show ?thesis
  proof (cases embeddings)
    case Nil
    with embedded show ?thesis
      by (simp add: query_documents_def Let_def first_embedding_def embed_models_append)
  next
    case (Cons v vs)
    note vec = this
    let ?tr1 = "tr @ [EmbedContent ''text-embedding-004'' q]"
    show ?thesis
    proof (cases "rpc_execute x ?tr1 ''match_documents_hybrid'' (hybrid_params v q)")
      case (Inl e)
      with embedded vec show ?thesis
        by (simp add: query_documents_def Let_def first_embedding_def embed_models_append)
    next
      case (Inr data)
      with embedded vec show ?thesis
        by (simp add: query_documents_def Let_def first_embedding_def embed_models_append
              get_chat_response_def split: option.split list.split sum.split)
    qed
  qed
qed

text \<open>
  Claim C6. Every embedding call that an ingestion run adds to the trace names the model
  \<open>text-embedding-004\<close>, and a query adds exactly one embedding call, naming the same
  model: the identifier used at ingestion time is the one used at query time.
\<close>

theorem one_embedding_model:
  "(\<exists>n. embed_models (snd (upload_pdf_to_supabase x cfg tr))
           = embed_models tr @ replicate n ''text-embedding-004'')
   \<and> embed_models (snd (query_documents x tr q h)) = embed_models tr @ [''text-embedding-004'']"
  using upload_models [of x cfg tr] query_models [of x tr q h]
  unfolding EMBEDDING_MODEL_def by (rule conjI)

end
